theory Spec2Isabelle
  imports Main "HOL-Library.Word" "HOL-Library.Monad_Syntax"
begin

unbundle bit_operations_syntax

section \<open>The LVGL filesystem port over LittleFS (lv\_port\_fs.c)\<close>

text \<open>
  The translation unit is a set of callbacks that forward to the C library (stdio, dirent),
  to ESP-IDF (mounting, logging) and to LVGL (driver registration). The callbacks are
  embedded as functions over an explicit world \<open>'w\<close>; everything they call but do not
  define is a field of the record \<open>extern\<close>, so a property proved for every \<open>extern\<close>
  holds whatever those collaborators do. Undefined behaviour of C (a dangling handle given
  to the C library, a store outside a buffer) is the value \<open>None\<close>.
\<close>

subsection \<open>C data\<close>

type_synonym ptr = nat
type_synonym byte = "8 word"
type_synonym uint32_t = "32 word"
type_synonym size_t = "32 word"  \<comment> \<open>the ESP32 is an ILP32 target\<close>
type_synonym lv_fs_mode_t = "8 word"
type_synonym esp_err_t = int

abbreviation NULL :: ptr where "NULL \<equiv> 0"
abbreviation NUL :: char where "NUL \<equiv> CHR 0x00"

text \<open>A C string is held without its terminator; \<open>cstr_at s i\<close> is the read \<open>s[i]\<close>:
  the terminator sits at index \<open>length s\<close>, and a read beyond it is out of bounds.\<close>

definition cstr_at :: "string \<Rightarrow> nat \<Rightarrow> char option" where
  "cstr_at s i = (if i < length s then Some (s ! i) else if i = length s then Some NUL else None)"

text \<open>The C string held in a character array: the characters before the first NUL.\<close>

definition c_str :: "char list \<Rightarrow> string" where
  "c_str buf = takeWhile (\<lambda>c. c \<noteq> NUL) buf"

text \<open>\<open>snprintf(buf, size, ...)\<close> with the formatted text \<open>s\<close>: at most \<open>size - 1\<close>
  characters are kept.\<close>

definition snprintf :: "nat \<Rightarrow> string \<Rightarrow> string" where
  "snprintf sz s = take (sz - 1) s"

text \<open>\<open>strncpy(dst, src, n)\<close> writes exactly \<open>n\<close> characters: the string in \<open>src\<close>,
  cut at \<open>n\<close> or padded with NUL up to \<open>n\<close>. Writing beyond \<open>dst\<close> is undefined.\<close>

definition strncpy :: "char list \<Rightarrow> char list \<Rightarrow> nat \<Rightarrow> char list option" where
  "strncpy dst src n =
     (if n \<le> length dst
      then Some (take n (c_str src @ replicate (n - length (c_str src)) NUL) @ drop n dst)
      else None)"

text \<open>The store \<open>a[i] = v\<close> into an array of known extent.\<close>

definition store_at :: "'a list \<Rightarrow> nat \<Rightarrow> 'a \<Rightarrow> 'a list option" where
  "store_at a i v = (if i < length a then Some (a[i := v]) else None)"

text \<open>The store \<open>*p = v\<close> through a pointer to one cell: \<open>None\<close> is the null pointer,
  \<open>Some x\<close> a cell holding \<open>x\<close>.\<close>

definition store_ptr :: "'a option \<Rightarrow> 'a \<Rightarrow> 'a option option" where
  "store_ptr p v = (case p of None \<Rightarrow> None | Some _ \<Rightarrow> Some (Some v))"

datatype lv_fs_res_t = LV_FS_RES_OK | LV_FS_RES_UNKNOWN

text \<open>\<open>lv_fs_whence_t\<close> is a C enumeration, so a caller can pass a value that is none of its
  enumerators: \<open>LV_FS_SEEK_other\<close> stands for every such value.\<close>

datatype lv_fs_whence_t = LV_FS_SEEK_SET | LV_FS_SEEK_CUR | LV_FS_SEEK_END | LV_FS_SEEK_other nat

datatype seek_origin = SEEK_SET | SEEK_CUR | SEEK_END

datatype log_level = ESP_LOG_ERROR | ESP_LOG_INFO

datatype log_arg = Str string | Num int

record dirent =
  d_name :: "char list"

record esp_vfs_littlefs_conf_t =
  base_path :: string
  partition_label :: "string option"
  format_if_mount_failed :: bool
  dont_mount :: bool

text \<open>The callbacks a driver is registered with are function pointers; they are named.\<close>

datatype callback = Fs_open | Fs_close | Fs_read | Fs_write | Fs_seek | Fs_tell
  | Fs_dir_open | Fs_dir_read | Fs_dir_close

record lv_fs_drv_t =
  letter :: char
  open_cb :: "callback option"
  close_cb :: "callback option"
  read_cb :: "callback option"
  write_cb :: "callback option"
  seek_cb :: "callback option"
  tell_cb :: "callback option"
  dir_open_cb :: "callback option"
  dir_read_cb :: "callback option"
  dir_close_cb :: "callback option"

subsection \<open>What the translation unit takes from its headers and libraries\<close>

text \<open>
  The macros \<open>LV_FS_PATH\<close> (lv\_port\_fs.h), \<open>LV_FS_MODE_WR\<close> (LVGL) and \<open>ESP_OK\<close>
  (ESP-IDF) are parameters. The library calls take the world and return it; a call whose
  behaviour the C standard leaves undefined for some arguments returns an option.
  \<open>feof\<close> and \<open>ferror\<close> only observe: the callbacks call them on a stream that
  \<open>fread\<close> or \<open>fwrite\<close> has just accepted.
\<close>

record 'w extern =
  LV_FS_PATH :: string
  LV_FS_MODE_WR :: lv_fs_mode_t
  ESP_OK :: esp_err_t
  esp_vfs_littlefs_register :: "esp_vfs_littlefs_conf_t \<Rightarrow> 'w \<Rightarrow> esp_err_t \<times> 'w"
  esp_littlefs_info :: "string option \<Rightarrow> size_t \<Rightarrow> size_t \<Rightarrow> 'w \<Rightarrow> (esp_err_t \<times> size_t \<times> size_t) \<times> 'w"
  esp_err_to_name :: "esp_err_t \<Rightarrow> string"
  esp_log :: "log_level \<Rightarrow> string \<Rightarrow> string \<Rightarrow> log_arg list \<Rightarrow> 'w \<Rightarrow> 'w"
  lv_fs_drv_init :: "lv_fs_drv_t \<Rightarrow> lv_fs_drv_t"
  lv_fs_drv_register :: "lv_fs_drv_t \<Rightarrow> 'w \<Rightarrow> 'w"
  errno :: "'w \<Rightarrow> int"
  fopen :: "string \<Rightarrow> string \<Rightarrow> 'w \<Rightarrow> ptr \<times> 'w"
  fclose :: "ptr \<Rightarrow> 'w \<Rightarrow> (int \<times> 'w) option"
  fread :: "byte list \<Rightarrow> size_t \<Rightarrow> size_t \<Rightarrow> ptr \<Rightarrow> 'w \<Rightarrow> ((size_t \<times> byte list) \<times> 'w) option"
  fwrite :: "byte list \<Rightarrow> size_t \<Rightarrow> size_t \<Rightarrow> ptr \<Rightarrow> 'w \<Rightarrow> (size_t \<times> 'w) option"
  feof :: "ptr \<Rightarrow> 'w \<Rightarrow> bool"
  ferror :: "ptr \<Rightarrow> 'w \<Rightarrow> bool"
  fseek :: "ptr \<Rightarrow> int \<Rightarrow> seek_origin \<Rightarrow> 'w \<Rightarrow> (int \<times> 'w) option"
  ftell :: "ptr \<Rightarrow> 'w \<Rightarrow> (int \<times> 'w) option"
  opendir :: "string \<Rightarrow> 'w \<Rightarrow> ptr \<times> 'w"
  readdir :: "ptr \<Rightarrow> 'w \<Rightarrow> (dirent option \<times> 'w) option"
  closedir :: "ptr \<Rightarrow> 'w \<Rightarrow> (int \<times> 'w) option"

definition TAG :: string where
  "TAG = ''lv_fs''"

subsection \<open>Initialisation\<close>

definition fs_init :: "'w extern \<Rightarrow> 'w \<Rightarrow> 'w" where
  "fs_init L w =
     (let conf = \<lparr>base_path = LV_FS_PATH L, partition_label = None,
                  format_if_mount_failed = True, dont_mount = False\<rparr>;
          (ret, w1) = esp_vfs_littlefs_register L conf w
      in if ret \<noteq> ESP_OK L
         then esp_log L ESP_LOG_ERROR TAG ''Failed to mount LittleFS (%s)''
                [Str (esp_err_to_name L ret)] w1
         else
           (let ((ret2, total, used), w2) = esp_littlefs_info L (partition_label conf) 0 0 w1
            in if ret2 = ESP_OK L
               then esp_log L ESP_LOG_INFO TAG ''LittleFS Partition size: total: %d, used: %d''
                      [Num (uint total), Num (uint used)] w2
               else w2))"

text \<open>The static driver structure before \<open>lv_fs_drv_init\<close>: zero-initialised storage.\<close>

definition fs_drv_static :: lv_fs_drv_t where
  "fs_drv_static = \<lparr>letter = NUL, open_cb = None, close_cb = None, read_cb = None,
     write_cb = None, seek_cb = None, tell_cb = None, dir_open_cb = None,
     dir_read_cb = None, dir_close_cb = None\<rparr>"

definition lv_port_fs_init :: "'w extern \<Rightarrow> 'w \<Rightarrow> 'w" where
  "lv_port_fs_init L w =
     (let w1 = fs_init L w;
          fs_drv = lv_fs_drv_init L fs_drv_static;
          fs_drv = fs_drv\<lparr>letter := CHR ''S''\<rparr>;
          fs_drv = fs_drv\<lparr>open_cb := Some Fs_open\<rparr>;
          fs_drv = fs_drv\<lparr>close_cb := Some Fs_close\<rparr>;
          fs_drv = fs_drv\<lparr>read_cb := Some Fs_read\<rparr>;
          fs_drv = fs_drv\<lparr>write_cb := Some Fs_write\<rparr>;
          fs_drv = fs_drv\<lparr>seek_cb := Some Fs_seek\<rparr>;
          fs_drv = fs_drv\<lparr>tell_cb := Some Fs_tell\<rparr>;
          fs_drv = fs_drv\<lparr>dir_open_cb := Some Fs_dir_open\<rparr>;
          fs_drv = fs_drv\<lparr>dir_read_cb := Some Fs_dir_read\<rparr>;
          fs_drv = fs_drv\<lparr>dir_close_cb := Some Fs_dir_close\<rparr>
      in lv_fs_drv_register L fs_drv w1)"

subsection \<open>File callbacks\<close>

text \<open>The contents of the local \<open>filepath[256]\<close> of \<open>fs_open\<close>. The read \<open>p[1]\<close> is
  beyond the terminator when the path is empty.\<close>

definition fs_open_filepath :: "'w extern \<Rightarrow> string \<Rightarrow> string option" where
  "fs_open_filepath L path =
     do {
       c1 \<leftarrow> cstr_at path 1;
       let p = (if c1 = CHR '':'' then drop 2 path else path);
       c0 \<leftarrow> cstr_at p 0;
       Some (if c0 = CHR ''/'' then snprintf 256 (LV_FS_PATH L @ p)
             else snprintf 256 (LV_FS_PATH L @ ''/'' @ p))
     }"

definition fs_open_mode_str :: "'w extern \<Rightarrow> lv_fs_mode_t \<Rightarrow> string" where
  "fs_open_mode_str L mode = (if mode AND LV_FS_MODE_WR L \<noteq> 0 then ''wb'' else ''rb'')"

definition fs_open :: "'w extern \<Rightarrow> string \<Rightarrow> lv_fs_mode_t \<Rightarrow> 'w \<Rightarrow> (ptr \<times> 'w) option" where
  "fs_open L path mode w =
     do {
       filepath \<leftarrow> fs_open_filepath L path;
       let mode_str = fs_open_mode_str L mode;
       let w1 = esp_log L ESP_LOG_INFO TAG ''open %s (%s)'' [Str filepath, Str mode_str] w;
       let (f, w2) = fopen L filepath mode_str w1;
       let w3 = (if f = NULL
                 then esp_log L ESP_LOG_ERROR TAG ''Failed to open %s (errno=%d)''
                        [Str filepath, Num (errno L w2)] w2
                 else w2);
       Some (f, w3)
     }"

definition fs_close :: "'w extern \<Rightarrow> ptr \<Rightarrow> 'w \<Rightarrow> (lv_fs_res_t \<times> 'w) option" where
  "fs_close L file_p w =
     (if file_p = NULL then Some (LV_FS_RES_UNKNOWN, w)
      else do {
        (rc, w1) \<leftarrow> fclose L file_p w;
        Some (LV_FS_RES_OK, w1)
      })"

text \<open>\<open>fs_read\<close> and \<open>fs_write\<close> return the status, the caller's buffer (for a read) and
  the caller's count cell \<open>br\<close> / \<open>bw\<close> as they are left.\<close>

definition fs_read ::
  "'w extern \<Rightarrow> ptr \<Rightarrow> byte list \<Rightarrow> uint32_t \<Rightarrow> uint32_t option \<Rightarrow> 'w
     \<Rightarrow> (lv_fs_res_t \<times> byte list \<times> uint32_t option \<times> 'w) option" where
  "fs_read L file_p buf btr br w =
     (if file_p = NULL then Some (LV_FS_RES_UNKNOWN, buf, br, w)
      else do {
        ((n, buf1), w1) \<leftarrow> fread L buf 1 btr file_p w;
        br1 \<leftarrow> store_ptr br n;
        if n = 0 then
          (if feof L file_p w1 then Some (LV_FS_RES_OK, buf1, br1, w1)
           else if ferror L file_p w1 then Some (LV_FS_RES_UNKNOWN, buf1, br1, w1)
           else Some (LV_FS_RES_OK, buf1, br1, w1))
        else Some (LV_FS_RES_OK, buf1, br1, w1)
      })"

definition fs_write ::
  "'w extern \<Rightarrow> ptr \<Rightarrow> byte list \<Rightarrow> uint32_t \<Rightarrow> uint32_t option \<Rightarrow> 'w
     \<Rightarrow> (lv_fs_res_t \<times> uint32_t option \<times> 'w) option" where
  "fs_write L file_p buf btw bw w =
     (if file_p = NULL then Some (LV_FS_RES_UNKNOWN, bw, w)
      else do {
        (n, w1) \<leftarrow> fwrite L buf 1 btw file_p w;
        bw1 \<leftarrow> store_ptr bw n;
        if n < btw \<and> ferror L file_p w1 then Some (LV_FS_RES_UNKNOWN, bw1, w1)
        else Some (LV_FS_RES_OK, bw1, w1)
      })"

definition fs_seek_origin :: "lv_fs_whence_t \<Rightarrow> seek_origin" where
  "fs_seek_origin whence =
     (let origin = SEEK_SET
      in case whence of
           LV_FS_SEEK_SET \<Rightarrow> SEEK_SET
         | LV_FS_SEEK_CUR \<Rightarrow> SEEK_CUR
         | LV_FS_SEEK_END \<Rightarrow> SEEK_END
         | LV_FS_SEEK_other _ \<Rightarrow> origin)"

text \<open>The offset reaches \<open>fseek\<close> as a \<open>long\<close>, 32 bits wide on this target.\<close>

definition fs_seek ::
  "'w extern \<Rightarrow> ptr \<Rightarrow> uint32_t \<Rightarrow> lv_fs_whence_t \<Rightarrow> 'w \<Rightarrow> (lv_fs_res_t \<times> 'w) option" where
  "fs_seek L file_p pos whence w =
     (if file_p = NULL then Some (LV_FS_RES_UNKNOWN, w)
      else do {
        (rc, w1) \<leftarrow> fseek L file_p (sint pos) (fs_seek_origin whence) w;
        Some (if rc = 0 then LV_FS_RES_OK else LV_FS_RES_UNKNOWN, w1)
      })"

definition fs_tell ::
  "'w extern \<Rightarrow> ptr \<Rightarrow> uint32_t option \<Rightarrow> 'w \<Rightarrow> (lv_fs_res_t \<times> uint32_t option \<times> 'w) option" where
  "fs_tell L file_p pos_p w =
     (if file_p = NULL \<or> pos_p = None then Some (LV_FS_RES_UNKNOWN, pos_p, w)
      else do {
        (pos, w1) \<leftarrow> ftell L file_p w;
        if pos < 0 then Some (LV_FS_RES_UNKNOWN, pos_p, w1)
        else do {
          pos_p1 \<leftarrow> store_ptr pos_p (word_of_int pos);
          Some (LV_FS_RES_OK, pos_p1, w1)
        }
      })"

subsection \<open>Directory callbacks\<close>

text \<open>The contents of the local \<open>dirpath[256]\<close> of \<open>fs_dir_open\<close>.\<close>

definition fs_dir_open_dirpath :: "'w extern \<Rightarrow> string \<Rightarrow> string option" where
  "fs_dir_open_dirpath L path =
     do {
       c0 \<leftarrow> cstr_at path 0;
       Some (if c0 = CHR ''/'' then snprintf 256 (LV_FS_PATH L @ path)
             else snprintf 256 (LV_FS_PATH L @ ''/'' @ path))
     }"

definition fs_dir_open :: "'w extern \<Rightarrow> string \<Rightarrow> 'w \<Rightarrow> (ptr \<times> 'w) option" where
  "fs_dir_open L path w =
     do {
       dirpath \<leftarrow> fs_dir_open_dirpath L path;
       Some (opendir L dirpath w)
     }"

definition fs_dir_read ::
  "'w extern \<Rightarrow> ptr \<Rightarrow> char list \<Rightarrow> uint32_t \<Rightarrow> 'w \<Rightarrow> (lv_fs_res_t \<times> char list \<times> 'w) option" where
  "fs_dir_read L rddir_p fn fn_len w =
     (if rddir_p = NULL then Some (LV_FS_RES_UNKNOWN, fn, w)
      else do {
        (entry, w1) \<leftarrow> readdir L rddir_p w;
        case entry of
          None \<Rightarrow> do {
            fn1 \<leftarrow> store_at fn 0 NUL;
            Some (LV_FS_RES_OK, fn1, w1)
          }
        | Some e \<Rightarrow> do {
            fn1 \<leftarrow> strncpy fn (d_name e) (unat (fn_len - 1));
            fn2 \<leftarrow> store_at fn1 (unat (fn_len - 1)) NUL;
            Some (LV_FS_RES_OK, fn2, w1)
          }
      })"

definition fs_dir_close :: "'w extern \<Rightarrow> ptr \<Rightarrow> 'w \<Rightarrow> (lv_fs_res_t \<times> 'w) option" where
  "fs_dir_close L rddir_p w =
     (if rddir_p = NULL then Some (LV_FS_RES_UNKNOWN, w)
      else do {
        (rc, w1) \<leftarrow> closedir L rddir_p w;
        Some (LV_FS_RES_OK, w1)
      })"

section \<open>A reference platform\<close>

text \<open>
  One concrete \<open>extern\<close>, used to run the callbacks on explicit inputs: a flash store of
  files and directories keyed by their full path, the open streams and directory cursors
  keyed by the pointer the C library handed out, a console and LVGL's list of registered
  drivers. The stdio calls follow the C standard: \<open>"wb"\<close> truncates to length zero or
  creates, \<open>"rb"\<close> fails on a missing file, end-of-file and error indicators are sticky,
  a transfer in the direction a stream was not opened for sets the error indicator, and a
  pointer that is not an open stream is undefined behaviour.
\<close>

record stream =
  s_path :: string
  s_pos :: nat
  s_readable :: bool
  s_eof :: bool
  s_err :: bool

record world =
  flash_ok :: bool
  mounted :: bool
  usage :: "size_t \<times> size_t"
  console :: "(log_level \<times> string \<times> string \<times> log_arg list) list"
  registry :: "lv_fs_drv_t list"
  files :: "string \<rightharpoonup> byte list"
  folders :: "string \<rightharpoonup> string list"
  streams :: "ptr \<rightharpoonup> stream"
  cursors :: "ptr \<rightharpoonup> string list"
  last_ptr :: ptr
  errno_val :: int

definition ref_esp_vfs_littlefs_register :: "esp_vfs_littlefs_conf_t \<Rightarrow> world \<Rightarrow> esp_err_t \<times> world" where
  "ref_esp_vfs_littlefs_register conf w =
     (if flash_ok w then (0, w\<lparr>mounted := True\<rparr>) else (- 1, w))"

definition ref_esp_littlefs_info ::
  "string option \<Rightarrow> size_t \<Rightarrow> size_t \<Rightarrow> world \<Rightarrow> (esp_err_t \<times> size_t \<times> size_t) \<times> world" where
  "ref_esp_littlefs_info label tot usd w =
     (if mounted w then ((0, fst (usage w), snd (usage w)), w) else ((259, tot, usd), w))"

definition ref_esp_err_to_name :: "esp_err_t \<Rightarrow> string" where
  "ref_esp_err_to_name e = (if e = 0 then ''ESP_OK'' else if e = - 1 then ''ESP_FAIL'' else ''ERROR'')"

definition ref_esp_log :: "log_level \<Rightarrow> string \<Rightarrow> string \<Rightarrow> log_arg list \<Rightarrow> world \<Rightarrow> world" where
  "ref_esp_log lvl tag fmt args w = w\<lparr>console := console w @ [(lvl, tag, fmt, args)]\<rparr>"

definition ref_lv_fs_drv_init :: "lv_fs_drv_t \<Rightarrow> lv_fs_drv_t" where
  "ref_lv_fs_drv_init drv = fs_drv_static"

definition ref_lv_fs_drv_register :: "lv_fs_drv_t \<Rightarrow> world \<Rightarrow> world" where
  "ref_lv_fs_drv_register drv w = w\<lparr>registry := registry w @ [drv]\<rparr>"

definition contents :: "world \<Rightarrow> string \<Rightarrow> byte list" where
  "contents w path = (case files w path of None \<Rightarrow> [] | Some d \<Rightarrow> d)"

definition new_stream :: "string \<Rightarrow> bool \<Rightarrow> stream" where
  "new_stream path rd = \<lparr>s_path = path, s_pos = 0, s_readable = rd, s_eof = False, s_err = False\<rparr>"

definition ref_fopen :: "string \<Rightarrow> string \<Rightarrow> world \<Rightarrow> ptr \<times> world" where
  "ref_fopen path mode_str w =
     (let f = Suc (last_ptr w)
      in if \<not> mounted w then (NULL, w\<lparr>errno_val := 2\<rparr>)
         else if folders w path \<noteq> None then (NULL, w\<lparr>errno_val := 21\<rparr>)
         else if mode_str = ''wb''
         then (f, w\<lparr>files := (files w)(path \<mapsto> []),
                    streams := (streams w)(f \<mapsto> new_stream path False), last_ptr := f\<rparr>)
         else if mode_str = ''rb'' \<and> files w path \<noteq> None
         then (f, w\<lparr>streams := (streams w)(f \<mapsto> new_stream path True), last_ptr := f\<rparr>)
         else (NULL, w\<lparr>errno_val := 2\<rparr>))"

definition ref_fclose :: "ptr \<Rightarrow> world \<Rightarrow> (int \<times> world) option" where
  "ref_fclose f w =
     (case streams w f of
        None \<Rightarrow> None
      | Some s \<Rightarrow> Some (0, w\<lparr>streams := (streams w)(f := None)\<rparr>))"

definition ref_fread ::
  "byte list \<Rightarrow> size_t \<Rightarrow> size_t \<Rightarrow> ptr \<Rightarrow> world \<Rightarrow> ((size_t \<times> byte list) \<times> world) option" where
  "ref_fread buf sz nmemb f w =
     (case streams w f of
        None \<Rightarrow> None
      | Some s \<Rightarrow>
          if length buf < unat sz * unat nmemb then None
          else if \<not> s_readable s
          then Some ((0, buf), w\<lparr>streams := (streams w)(f \<mapsto> s\<lparr>s_err := True\<rparr>), errno_val := 9\<rparr>)
          else
            (let rest = drop (s_pos s) (contents w (s_path s));
                 k = (if sz = 0 then 0 else min (unat nmemb) (length rest div unat sz));
                 got = take (k * unat sz) rest
             in Some ((of_nat k, got @ drop (length got) buf),
                  w\<lparr>streams := (streams w)(f \<mapsto>
                      s\<lparr>s_pos := s_pos s + length got,
                        s_eof := s_eof s \<or> (sz \<noteq> 0 \<and> k < unat nmemb)\<rparr>)\<rparr>)))"

definition ref_fwrite ::
  "byte list \<Rightarrow> size_t \<Rightarrow> size_t \<Rightarrow> ptr \<Rightarrow> world \<Rightarrow> (size_t \<times> world) option" where
  "ref_fwrite buf sz nmemb f w =
     (case streams w f of
        None \<Rightarrow> None
      | Some s \<Rightarrow>
          if length buf < unat sz * unat nmemb then None
          else if s_readable s
          then Some (0, w\<lparr>streams := (streams w)(f \<mapsto> s\<lparr>s_err := True\<rparr>), errno_val := 9\<rparr>)
          else
            (let old = contents w (s_path s);
                 new = take (unat sz * unat nmemb) buf;
                 gap = replicate (s_pos s - length old) 0
             in Some (if sz = 0 then 0 else nmemb,
                  w\<lparr>files := (files w)(s_path s \<mapsto>
                        take (s_pos s) (old @ gap) @ new @ drop (s_pos s + length new) old),
                    streams := (streams w)(f \<mapsto> s\<lparr>s_pos := s_pos s + length new\<rparr>)\<rparr>)))"

definition ref_feof :: "ptr \<Rightarrow> world \<Rightarrow> bool" where
  "ref_feof f w = (case streams w f of None \<Rightarrow> False | Some s \<Rightarrow> s_eof s)"

definition ref_ferror :: "ptr \<Rightarrow> world \<Rightarrow> bool" where
  "ref_ferror f w = (case streams w f of None \<Rightarrow> False | Some s \<Rightarrow> s_err s)"

definition ref_fseek :: "ptr \<Rightarrow> int \<Rightarrow> seek_origin \<Rightarrow> world \<Rightarrow> (int \<times> world) option" where
  "ref_fseek f off origin w =
     (case streams w f of
        None \<Rightarrow> None
      | Some s \<Rightarrow>
          (let base = (case origin of
                         SEEK_SET \<Rightarrow> 0
                       | SEEK_CUR \<Rightarrow> int (s_pos s)
                       | SEEK_END \<Rightarrow> int (length (contents w (s_path s))));
               target = base + off
           in if target < 0 then Some (- 1, w\<lparr>errno_val := 22\<rparr>)
              else Some (0, w\<lparr>streams := (streams w)(f \<mapsto> s\<lparr>s_pos := nat target, s_eof := False\<rparr>)\<rparr>)))"

definition ref_ftell :: "ptr \<Rightarrow> world \<Rightarrow> (int \<times> world) option" where
  "ref_ftell f w = (case streams w f of None \<Rightarrow> None | Some s \<Rightarrow> Some (int (s_pos s), w))"

definition ref_opendir :: "string \<Rightarrow> world \<Rightarrow> ptr \<times> world" where
  "ref_opendir path w =
     (let d = Suc (last_ptr w)
      in if \<not> mounted w then (NULL, w\<lparr>errno_val := 2\<rparr>)
         else case folders w path of
                None \<Rightarrow> (NULL, w\<lparr>errno_val := 2\<rparr>)
              | Some names \<Rightarrow> (d, w\<lparr>cursors := (cursors w)(d \<mapsto> names), last_ptr := d\<rparr>))"

definition ref_readdir :: "ptr \<Rightarrow> world \<Rightarrow> (dirent option \<times> world) option" where
  "ref_readdir d w =
     (case cursors w d of
        None \<Rightarrow> None
      | Some [] \<Rightarrow> Some (None, w)
      | Some (name # names) \<Rightarrow>
          Some (Some \<lparr>d_name = name @ [NUL]\<rparr>, w\<lparr>cursors := (cursors w)(d \<mapsto> names)\<rparr>))"

definition ref_closedir :: "ptr \<Rightarrow> world \<Rightarrow> (int \<times> world) option" where
  "ref_closedir d w =
     (case cursors w d of
        None \<Rightarrow> None
      | Some names \<Rightarrow> Some (0, w\<lparr>cursors := (cursors w)(d := None)\<rparr>))"

definition ref_platform :: "string \<Rightarrow> lv_fs_mode_t \<Rightarrow> world extern" where
  "ref_platform mount_point wr =
     \<lparr>LV_FS_PATH = mount_point, LV_FS_MODE_WR = wr, ESP_OK = 0,
      esp_vfs_littlefs_register = ref_esp_vfs_littlefs_register,
      esp_littlefs_info = ref_esp_littlefs_info,
      esp_err_to_name = ref_esp_err_to_name,
      esp_log = ref_esp_log,
      lv_fs_drv_init = ref_lv_fs_drv_init,
      lv_fs_drv_register = ref_lv_fs_drv_register,
      errno = errno_val,
      fopen = ref_fopen, fclose = ref_fclose, fread = ref_fread, fwrite = ref_fwrite,
      feof = ref_feof, ferror = ref_ferror, fseek = ref_fseek, ftell = ref_ftell,
      opendir = ref_opendir, readdir = ref_readdir, closedir = ref_closedir\<rparr>"

text \<open>The board: the store mounted at \<open>/littlefs\<close>, LVGL's write bit \<open>0x01\<close>.\<close>

definition esp32 :: "world extern" where
  "esp32 = ref_platform ''/littlefs'' 1"

text \<open>A world before start-up (\<open>ok\<close>: whether the flash store can be mounted), holding an
  empty root directory, a file of two bytes and an empty file.\<close>

definition power_on :: "bool \<Rightarrow> world" where
  "power_on ok =
     \<lparr>flash_ok = ok, mounted = False, usage = (1048576, 8192), console = [], registry = [],
      files = [''/littlefs/a.txt'' \<mapsto> [104, 105], ''/littlefs/empty.bin'' \<mapsto> []],
      folders = [''/littlefs/'' \<mapsto> [], ''/littlefs/img'' \<mapsto> [''logo.bin'', ''a_rather_long_name.png'']],
      streams = Map.empty, cursors = Map.empty, last_ptr = 0, errno_val = 0\<rparr>"

text \<open>Runs on the board: start-up; a file opened for writing and closed; the empty file
  opened for reading, written to (which fails) and read; the file of two bytes opened for
  reading; two directories opened. Each open starts from \<open>started\<close>, so each handle is
  the first the C library hands out.\<close>

definition started :: world where
  "started = lv_port_fs_init esp32 (power_on True)"

definition w_open :: world where
  "w_open = snd (the (fs_open esp32 ''S:/a.txt'' 1 started))"

definition w_shut :: world where
  "w_shut = snd (the (fs_close esp32 1 w_open))"

definition r_open :: world where
  "r_open = snd (the (fs_open esp32 ''S:/empty.bin'' 2 started))"

definition r_err :: world where
  "r_err = snd (snd (the (fs_write esp32 1 [7] 1 (Some 0) r_open)))"

definition r_end :: world where
  "r_end = snd (snd (snd (the (fs_read esp32 1 [0, 0] 2 (Some 5) r_err))))"

definition a_open :: world where
  "a_open = snd (the (fs_open esp32 ''S:/a.txt'' 2 started))"

definition d_open :: world where
  "d_open = snd (the (fs_dir_open esp32 ''img'' started))"

definition e_open :: world where
  "e_open = snd (the (fs_dir_open esp32 ''/'' started))"

lemmas ref_defs = esp32_def ref_platform_def power_on_def
  ref_esp_vfs_littlefs_register_def ref_esp_littlefs_info_def ref_esp_err_to_name_def
  ref_esp_log_def ref_lv_fs_drv_init_def ref_lv_fs_drv_register_def contents_def
  new_stream_def ref_fopen_def ref_fclose_def ref_fread_def ref_fwrite_def ref_feof_def
  ref_ferror_def ref_fseek_def ref_ftell_def ref_opendir_def ref_readdir_def ref_closedir_def

lemmas path_defs = fs_open_filepath_def fs_dir_open_dirpath_def cstr_at_def snprintf_def

lemmas init_defs = lv_port_fs_init_def fs_init_def TAG_def fs_drv_static_def

lemmas open_defs = fs_open_def fs_open_mode_str_def

section \<open>Path translation\<close>

text \<open>\<open>fs_open\<close> drops a drive designator before it prefixes the mount point: a path and the
  same path behind a designator resolve alike, provided the path is not empty and does not
  itself start with a designator.\<close>

lemma fs_open_filepath_prefix:
  "p \<noteq> [] \<Longrightarrow> cstr_at p 1 \<noteq> Some (CHR '':'') \<Longrightarrow>
   fs_open_filepath L (x # CHR '':'' # p) = fs_open_filepath L p"
  by (cases p) (auto simp: fs_open_filepath_def cstr_at_def split: if_splits)

text \<open>\<open>fs_dir_open\<close> prefixes the mount point without looking for a designator, so it agrees
  with \<open>fs_open\<close> exactly on the paths that carry none.\<close>

lemma fs_dir_open_dirpath_no_prefix:
  "path \<noteq> [] \<Longrightarrow> cstr_at path 1 \<noteq> Some (CHR '':'') \<Longrightarrow>
   fs_dir_open_dirpath L path = fs_open_filepath L path"
  by (cases path) (auto simp: fs_open_filepath_def fs_dir_open_dirpath_def cstr_at_def split: if_splits)

text \<open>
  Claim C1: the resolved path is the same with or without a drive-letter prefix, for the
  translation of Open and identically for that of DirOpen, and the two translations agree on
  every input. On the board, \<open>fs_open\<close> resolves \<open>S:/img\<close> to \<open>/littlefs/img\<close>, while
  \<open>fs_dir_open\<close> resolves it to \<open>/littlefs/S:/img\<close>: the designator is kept, the directory
  that \<open>/img\<close> opens is not found, and the call returns the null pointer.
\<close>

theorem C1_dir_open_keeps_drive_letter:
  "fs_open_filepath esp32 ''S:/img'' = Some ''/littlefs/img''
   \<and> fs_dir_open_dirpath esp32 ''S:/img'' = Some ''/littlefs/S:/img''
   \<and> fs_dir_open_dirpath esp32 ''/img'' = Some ''/littlefs/img''
   \<and> fst (the (fs_dir_open esp32 ''S:/img'' started)) = NULL
   \<and> fst (the (fs_dir_open esp32 ''/img'' started)) = 1"
  by (simp add: fs_dir_open_def started_def path_defs init_defs ref_defs)

section \<open>Start-up\<close>

text \<open>
  Claim C2, as stated: when the mount fails, the failure is logged and the initialisation
  returns without completing the registration of the callbacks. On a board whose flash store
  cannot be mounted the failure is logged, the store stays unmounted, and the driver is
  registered all the same, with its nine callbacks.
\<close>

theorem C2_counterexample:
  "mounted (lv_port_fs_init esp32 (power_on False)) = False
   \<and> console (lv_port_fs_init esp32 (power_on False))
       = [(ESP_LOG_ERROR, ''lv_fs'', ''Failed to mount LittleFS (%s)'', [Str ''ESP_FAIL''])]
   \<and> registry (lv_port_fs_init esp32 (power_on False))
       = [\<lparr>letter = CHR ''S'', open_cb = Some Fs_open, close_cb = Some Fs_close,
           read_cb = Some Fs_read, write_cb = Some Fs_write, seek_cb = Some Fs_seek,
           tell_cb = Some Fs_tell, dir_open_cb = Some Fs_dir_open,
           dir_read_cb = Some Fs_dir_read, dir_close_cb = Some Fs_dir_close\<rparr>]"
  by (simp add: init_defs ref_defs)

text \<open>
  Claim C2, amended: when the mount fails, \<open>fs_init\<close> logs the failure and returns at once
  (the partition is not queried); \<open>lv_port_fs_init\<close> then registers the driver under the
  letter \<open>S\<close> with all nine callbacks.
\<close>

theorem C2_mount_failure_logged_driver_registered:
  assumes "esp_vfs_littlefs_register L
             \<lparr>base_path = LV_FS_PATH L, partition_label = None,
              format_if_mount_failed = True, dont_mount = False\<rparr> w = (ret, w1)"
    and "ret \<noteq> ESP_OK L"
  shows "fs_init L w = esp_log L ESP_LOG_ERROR TAG ''Failed to mount LittleFS (%s)''
                         [Str (esp_err_to_name L ret)] w1
         \<and> (\<exists>drv. lv_port_fs_init L w = lv_fs_drv_register L drv (fs_init L w)
               \<and> letter drv = CHR ''S''
               \<and> open_cb drv = Some Fs_open \<and> close_cb drv = Some Fs_close
               \<and> read_cb drv = Some Fs_read \<and> write_cb drv = Some Fs_write
               \<and> seek_cb drv = Some Fs_seek \<and> tell_cb drv = Some Fs_tell
               \<and> dir_open_cb drv = Some Fs_dir_open \<and> dir_read_cb drv = Some Fs_dir_read
               \<and> dir_close_cb drv = Some Fs_dir_close)"
proof
  show "fs_init L w = esp_log L ESP_LOG_ERROR TAG ''Failed to mount LittleFS (%s)''
                         [Str (esp_err_to_name L ret)] w1"
    using assms by (simp add: fs_init_def)
next
  show "\<exists>drv. lv_port_fs_init L w = lv_fs_drv_register L drv (fs_init L w)
               \<and> letter drv = CHR ''S''
               \<and> open_cb drv = Some Fs_open \<and> close_cb drv = Some Fs_close
               \<and> read_cb drv = Some Fs_read \<and> write_cb drv = Some Fs_write
               \<and> seek_cb drv = Some Fs_seek \<and> tell_cb drv = Some Fs_tell
               \<and> dir_open_cb drv = Some Fs_dir_open \<and> dir_read_cb drv = Some Fs_dir_read
               \<and> dir_close_cb drv = Some Fs_dir_close"
    unfolding lv_port_fs_init_def Let_def
    by (rule exI, rule conjI, rule refl) simp
qed

text \<open>The amended claim on the board whose flash store cannot be mounted.\<close>

theorem C2_witness:
  "esp_vfs_littlefs_register esp32
     \<lparr>base_path = LV_FS_PATH esp32, partition_label = None,
      format_if_mount_failed = True, dont_mount = False\<rparr> (power_on False) = (- 1, power_on False)
   \<and> - 1 \<noteq> ESP_OK esp32
   \<and> fs_init esp32 (power_on False)
       = esp_log esp32 ESP_LOG_ERROR TAG ''Failed to mount LittleFS (%s)'' [Str ''ESP_FAIL''] (power_on False)
   \<and> length (registry (lv_port_fs_init esp32 (power_on False))) = 1"
proof -
  have h1: "esp_vfs_littlefs_register esp32
     \<lparr>base_path = LV_FS_PATH esp32, partition_label = None,
      format_if_mount_failed = True, dont_mount = False\<rparr> (power_on False) = (- 1, power_on False)"
    by (simp add: ref_defs)
  have h2: "- 1 \<noteq> ESP_OK esp32" by (simp add: ref_defs)
  from C2_mount_failure_logged_driver_registered [OF h1 h2]
  obtain drv where
    a: "fs_init esp32 (power_on False) = esp_log esp32 ESP_LOG_ERROR TAG
          ''Failed to mount LittleFS (%s)'' [Str (esp_err_to_name esp32 (- 1))] (power_on False)"
    and b: "lv_port_fs_init esp32 (power_on False)
          = lv_fs_drv_register esp32 drv (fs_init esp32 (power_on False))"
    by blast
  have c: "esp_err_to_name esp32 (- 1) = ''ESP_FAIL''" by (simp add: ref_defs)
  have d: "length (registry (lv_port_fs_init esp32 (power_on False))) = 1"
    unfolding b a by (simp add: ref_defs)
  show ?thesis using h1 h2 a c d by simp
qed

section \<open>Handles\<close>

text \<open>
  Claim C3, as stated: every handle-taking operation on an already closed or a null handle
  returns UnknownError instead of undefined behaviour. The callbacks keep no record of the
  handles they gave out and test a handle against the null pointer only: on the board, a
  handle that was opened and closed is passed on to the C library by a second \<open>fs_close\<close>,
  and by \<open>fs_read\<close>, \<open>fs_write\<close>, \<open>fs_seek\<close> and \<open>fs_tell\<close>, which is undefined behaviour.
\<close>

theorem C3_counterexample:
  "fs_open esp32 ''S:/a.txt'' 1 started = Some (1, w_open)
   \<and> fs_close esp32 1 w_open = Some (LV_FS_RES_OK, w_shut)
   \<and> fs_close esp32 1 w_shut = None
   \<and> fs_close esp32 1 w_shut \<noteq> Some (LV_FS_RES_UNKNOWN, w_shut)
   \<and> fs_read esp32 1 [0] 1 (Some 0) w_shut = None
   \<and> fs_write esp32 1 [0] 1 (Some 0) w_shut = None
   \<and> fs_seek esp32 1 0 LV_FS_SEEK_SET w_shut = None
   \<and> fs_tell esp32 1 (Some 0) w_shut = None"
  by (simp add: started_def w_open_def w_shut_def open_defs fs_close_def fs_read_def fs_write_def
      fs_seek_def fs_seek_origin_def fs_tell_def store_ptr_def path_defs init_defs ref_defs)

text \<open>
  Claim C3, amended: every handle-taking operation (Close, Read, Write, Seek, Tell, DirRead,
  DirClose) given the null handle returns UnknownError, calls nothing and leaves the world,
  the caller's buffer and the caller's output cell as they were.
\<close>

theorem C3_null_handle_is_unknown_error:
  "fs_close L NULL w = Some (LV_FS_RES_UNKNOWN, w)
   \<and> fs_read L NULL buf btr br w = Some (LV_FS_RES_UNKNOWN, buf, br, w)
   \<and> fs_write L NULL buf btw bw w = Some (LV_FS_RES_UNKNOWN, bw, w)
   \<and> fs_seek L NULL pos whence w = Some (LV_FS_RES_UNKNOWN, w)
   \<and> fs_tell L NULL pos_p w = Some (LV_FS_RES_UNKNOWN, pos_p, w)
   \<and> fs_dir_read L NULL fn fn_len w = Some (LV_FS_RES_UNKNOWN, fn, w)
   \<and> fs_dir_close L NULL w = Some (LV_FS_RES_UNKNOWN, w)"
  by (simp add: fs_close_def fs_read_def fs_write_def fs_seek_def fs_tell_def fs_dir_read_def
      fs_dir_close_def)

section \<open>Read and write\<close>

text \<open>
  Claim C4, as stated: a read of zero bytes is Ok at end-of-stream and UnknownError when the
  stream reports an error. The end-of-file test comes first: on the board, a stream opened
  for reading whose error indicator a failed write has set, and which is at its end, reads
  zero bytes with both indicators set, and \<open>fs_read\<close> returns Ok.
\<close>

theorem C4_counterexample:
  "fs_read esp32 1 [0, 0] 2 (Some 5) r_err = Some (LV_FS_RES_OK, [0, 0], Some 0, r_end)
   \<and> ferror esp32 1 r_end \<and> feof esp32 1 r_end"
  by (simp add: started_def r_open_def r_err_def r_end_def open_defs fs_read_def fs_write_def
      store_ptr_def path_defs init_defs ref_defs)

text \<open>
  Claim C4, amended: for a read on a non-null handle the count cell receives the number of
  bytes read, and the status is Ok when zero bytes were read at end-of-stream, UnknownError
  when zero bytes were read, the stream is not at end-of-stream and it reports an error, Ok
  when zero bytes were read and neither indicator is set, and Ok whenever at least one byte
  was read (a partial read included).
\<close>

theorem C4_read_status:
  assumes "file_p \<noteq> NULL"
    and "fread L buf 1 btr file_p w = Some ((n, buf1), w1)"
  shows "\<exists>res. fs_read L file_p buf btr (Some br0) w = Some (res, buf1, Some n, w1)
           \<and> (n = 0 \<and> feof L file_p w1 \<longrightarrow> res = LV_FS_RES_OK)
           \<and> (n = 0 \<and> \<not> feof L file_p w1 \<and> ferror L file_p w1 \<longrightarrow> res = LV_FS_RES_UNKNOWN)
           \<and> (n = 0 \<and> \<not> feof L file_p w1 \<and> \<not> ferror L file_p w1 \<longrightarrow> res = LV_FS_RES_OK)
           \<and> (0 < n \<longrightarrow> res = LV_FS_RES_OK)"
  using assms by (simp add: fs_read_def store_ptr_def word_neq_0_conv)

text \<open>The amended claim on the board: a read from a stream opened for writing, a read of
  the empty file, and a read of four bytes from the file of two.\<close>

theorem C4_witness:
  "(1 :: ptr) \<noteq> NULL
   \<and> fread esp32 [0, 0] 1 2 1 w_open = Some ((0, [0, 0]), snd (the (fread esp32 [0, 0] 1 2 1 w_open)))
   \<and> \<not> feof esp32 1 (snd (the (fread esp32 [0, 0] 1 2 1 w_open)))
   \<and> ferror esp32 1 (snd (the (fread esp32 [0, 0] 1 2 1 w_open)))
   \<and> fs_read esp32 1 [0, 0] 2 (Some 5) w_open
       = Some (LV_FS_RES_UNKNOWN, [0, 0], Some 0, snd (the (fread esp32 [0, 0] 1 2 1 w_open)))
   \<and> fread esp32 [0, 0] 1 2 1 r_open = Some ((0, [0, 0]), snd (the (fread esp32 [0, 0] 1 2 1 r_open)))
   \<and> feof esp32 1 (snd (the (fread esp32 [0, 0] 1 2 1 r_open)))
   \<and> fs_read esp32 1 [0, 0] 2 (Some 5) r_open
       = Some (LV_FS_RES_OK, [0, 0], Some 0, snd (the (fread esp32 [0, 0] 1 2 1 r_open)))
   \<and> fread esp32 [0, 0, 0, 0] 1 4 1 a_open
       = Some ((2, [104, 105, 0, 0]), snd (the (fread esp32 [0, 0, 0, 0] 1 4 1 a_open)))
   \<and> fs_read esp32 1 [0, 0, 0, 0] 4 (Some 5) a_open
       = Some (LV_FS_RES_OK, [104, 105, 0, 0], Some 2, snd (the (fread esp32 [0, 0, 0, 0] 1 4 1 a_open)))"
proof -
  let ?w1 = "snd (the (fread esp32 [0, 0] 1 2 1 w_open))"
  let ?w2 = "snd (the (fread esp32 [0, 0] 1 2 1 r_open))"
  let ?w3 = "snd (the (fread esp32 [0, 0, 0, 0] 1 4 1 a_open))"
  have h1: "(1 :: ptr) \<noteq> NULL" by simp
  have h2: "fread esp32 [0, 0] 1 2 1 w_open = Some ((0, [0, 0]), ?w1)"
    by (simp add: started_def w_open_def open_defs path_defs init_defs ref_defs)
  have h3: "\<not> feof esp32 1 ?w1" "ferror esp32 1 ?w1"
    by (simp_all add: started_def w_open_def open_defs path_defs init_defs ref_defs)
  from C4_read_status [OF h1 h2, of 5] h3
  have a: "fs_read esp32 1 [0, 0] 2 (Some 5) w_open = Some (LV_FS_RES_UNKNOWN, [0, 0], Some 0, ?w1)"
    by auto
  have h4: "fread esp32 [0, 0] 1 2 1 r_open = Some ((0, [0, 0]), ?w2)"
    by (simp add: started_def r_open_def open_defs path_defs init_defs ref_defs)
  have h5: "feof esp32 1 ?w2"
    by (simp add: started_def r_open_def open_defs path_defs init_defs ref_defs)
  from C4_read_status [OF h1 h4, of 5] h5
  have b: "fs_read esp32 1 [0, 0] 2 (Some 5) r_open = Some (LV_FS_RES_OK, [0, 0], Some 0, ?w2)"
    by auto
  have h6: "fread esp32 [0, 0, 0, 0] 1 4 1 a_open = Some ((2, [104, 105, 0, 0]), ?w3)"
    by (simp add: started_def a_open_def open_defs path_defs init_defs ref_defs)
  from C4_read_status [OF h1 h6, of 5]
  have c: "fs_read esp32 1 [0, 0, 0, 0] 4 (Some 5) a_open
       = Some (LV_FS_RES_OK, [104, 105, 0, 0], Some 2, ?w3)"
    by auto
  from h1 h2 h3 a h4 h5 b h6 c show ?thesis by simp
qed

text \<open>
  Claim C5: for a write on a non-null handle the status is UnknownError exactly when fewer
  bytes than requested were written and the stream reports an error; in every other case it
  is Ok; in both the count cell receives the number of bytes written.
\<close>

theorem C5_write_status:
  assumes "file_p \<noteq> NULL"
    and "fwrite L buf 1 btw file_p w = Some (n, w1)"
  shows "\<exists>res. fs_write L file_p buf btw (Some bw0) w = Some (res, Some n, w1)
           \<and> (res = LV_FS_RES_UNKNOWN \<longleftrightarrow> n < btw \<and> ferror L file_p w1)
           \<and> (res = LV_FS_RES_OK \<longleftrightarrow> \<not> (n < btw \<and> ferror L file_p w1))"
  using assms by (simp add: fs_write_def store_ptr_def)

text \<open>The claim on the board: a write to a stream opened for reading.\<close>

theorem C5_witness:
  "(1 :: ptr) \<noteq> NULL
   \<and> fwrite esp32 [7] 1 1 1 r_open = Some (0, r_err)
   \<and> ferror esp32 1 r_err
   \<and> fs_write esp32 1 [7] 1 (Some 9) r_open = Some (LV_FS_RES_UNKNOWN, Some 0, r_err)"
proof -
  have h1: "(1 :: ptr) \<noteq> NULL" by simp
  have h2: "fwrite esp32 [7] 1 1 1 r_open = Some (0, r_err)"
    by (simp add: started_def r_open_def r_err_def open_defs fs_write_def store_ptr_def path_defs init_defs ref_defs)
  have h3: "ferror esp32 1 r_err"
    by (simp add: started_def r_open_def r_err_def open_defs fs_write_def store_ptr_def path_defs init_defs ref_defs)
  from C5_write_status [OF h1 h2, of 9] h3
  have "fs_write esp32 1 [7] 1 (Some 9) r_open = Some (LV_FS_RES_UNKNOWN, Some 0, r_err)"
    by auto
  with h1 h2 h3 show ?thesis by simp
qed

section \<open>Open modes\<close>

lemma fs_open_mode_bit:
  "fs_open_mode_str L (mode AND LV_FS_MODE_WR L) = fs_open_mode_str L mode"
  by (simp add: fs_open_mode_str_def and.assoc)

text \<open>
  Claim C6: Open chooses the mode string from the write bit of the requested mode alone,
  \<open>"wb"\<close> when it is set and \<open>"rb"\<close> otherwise. On the reference platform, whatever its
  mount point and write bit, a successful open with the write bit leaves the file at the
  resolved path empty and every other file as it was, and an open without it changes no
  file and no directory and succeeds only on a file that exists.
\<close>

theorem C6_open_mode:
  "fs_open_mode_str L mode = (if mode AND LV_FS_MODE_WR L = 0 then ''rb'' else ''wb'')
   \<and> fs_open L path mode w = fs_open L path (mode AND LV_FS_MODE_WR L) w
   \<and> (fs_open (ref_platform mp wr) path mode w = Some (f, w')
        \<and> fs_open_filepath (ref_platform mp wr) path = Some fp
      \<longrightarrow> (mode AND wr \<noteq> 0 \<and> f \<noteq> NULL
             \<longrightarrow> files w' fp = Some [] \<and> (\<forall>q. q \<noteq> fp \<longrightarrow> files w' q = files w q))
          \<and> (mode AND wr = 0
             \<longrightarrow> files w' = files w \<and> folders w' = folders w
                 \<and> (f \<noteq> NULL \<longrightarrow> files w fp \<noteq> None)))"
proof (intro conjI)
  show "fs_open_mode_str L mode = (if mode AND LV_FS_MODE_WR L = 0 then ''rb'' else ''wb'')"
    by (simp add: fs_open_mode_str_def)
  show "fs_open L path mode w = fs_open L path (mode AND LV_FS_MODE_WR L) w"
    by (simp add: fs_open_def fs_open_mode_bit)
  show "fs_open (ref_platform mp wr) path mode w = Some (f, w')
        \<and> fs_open_filepath (ref_platform mp wr) path = Some fp
      \<longrightarrow> (mode AND wr \<noteq> 0 \<and> f \<noteq> NULL
             \<longrightarrow> files w' fp = Some [] \<and> (\<forall>q. q \<noteq> fp \<longrightarrow> files w' q = files w q))
          \<and> (mode AND wr = 0
             \<longrightarrow> files w' = files w \<and> folders w' = folders w
                 \<and> (f \<noteq> NULL \<longrightarrow> files w fp \<noteq> None))"
    by (auto simp: fs_open_def fs_open_mode_str_def ref_platform_def ref_fopen_def ref_esp_log_def
        Let_def split: if_splits)
qed

text \<open>The claim on the board: a file of two bytes opened with mode read-and-write, and the
  empty file opened with mode read.\<close>

theorem C6_witness:
  "fs_open esp32 ''S:/a.txt'' 3 started = Some (1, w_open)
   \<and> fs_open_filepath esp32 ''S:/a.txt'' = Some ''/littlefs/a.txt''
   \<and> (3 :: lv_fs_mode_t) AND 1 \<noteq> 0 \<and> (1 :: ptr) \<noteq> NULL
   \<and> files started ''/littlefs/a.txt'' = Some [104, 105]
   \<and> files w_open ''/littlefs/a.txt'' = Some []
   \<and> fs_open esp32 ''S:/empty.bin'' 2 started = Some (1, r_open)
   \<and> (2 :: lv_fs_mode_t) AND 1 = 0
   \<and> files r_open = files started"
proof -
  have m: "LV_FS_MODE_WR esp32 = 1" by (simp add: ref_defs)
  have a1: "fs_open esp32 ''S:/a.txt'' 1 started = Some (1, w_open)"
    by (simp add: started_def w_open_def r_open_def open_defs path_defs init_defs ref_defs)
  have a2: "fs_open esp32 ''S:/a.txt'' 3 started = fs_open esp32 ''S:/a.txt'' (3 AND 1) started"
    using C6_open_mode [where L = esp32 and path = "''S:/a.txt''" and mode = 3 and w = started] m
    by simp
  have a: "fs_open esp32 ''S:/a.txt'' 3 started = Some (1, w_open)"
    using a1 a2 by simp
  have b: "fs_open_filepath esp32 ''S:/a.txt'' = Some ''/littlefs/a.txt''"
    by (simp add: path_defs ref_defs)
  have c: "(3 :: lv_fs_mode_t) AND 1 \<noteq> 0" "(1 :: ptr) \<noteq> NULL" "(2 :: lv_fs_mode_t) AND 1 = 0"
    by simp_all
  have d: "files started ''/littlefs/a.txt'' = Some [104, 105]"
    by (simp add: started_def init_defs ref_defs)
  have e: "files w_open ''/littlefs/a.txt'' = Some []"
    using C6_open_mode [where mp = "''/littlefs''" and wr = 1 and path = "''S:/a.txt''" and mode = 3
        and w = started and f = 1 and w' = w_open and fp = "''/littlefs/a.txt''"] a b c
    by (simp add: esp32_def)
  have f: "fs_open esp32 ''S:/empty.bin'' 2 started = Some (1, r_open)"
    by (simp add: started_def w_open_def r_open_def open_defs path_defs init_defs ref_defs)
  have g: "fs_open_filepath esp32 ''S:/empty.bin'' = Some ''/littlefs/empty.bin''"
    by (simp add: path_defs ref_defs)
  have h: "files r_open = files started"
    using C6_open_mode [where mp = "''/littlefs''" and wr = 1 and path = "''S:/empty.bin''"
        and mode = 2 and w = started and f = 1 and w' = r_open and fp = "''/littlefs/empty.bin''"] f g c
    by (simp add: esp32_def)
  from a b c d e f h show ?thesis by simp
qed

section \<open>Seek\<close>

text \<open>
  Claim C7: a whence outside the three enumerators is treated as FromStart, and on a non-null
  handle Seek returns Ok exactly when \<open>fseek\<close> returns zero.
\<close>

theorem C7_seek_whence_and_status:
  "fs_seek_origin LV_FS_SEEK_SET = SEEK_SET
   \<and> fs_seek_origin LV_FS_SEEK_CUR = SEEK_CUR
   \<and> fs_seek_origin LV_FS_SEEK_END = SEEK_END
   \<and> fs_seek_origin (LV_FS_SEEK_other k) = SEEK_SET
   \<and> fs_seek L file_p pos (LV_FS_SEEK_other k) w = fs_seek L file_p pos LV_FS_SEEK_SET w
   \<and> (file_p \<noteq> NULL \<and> fseek L file_p (sint pos) (fs_seek_origin whence) w = Some (rc, w1)
        \<longrightarrow> (\<exists>res. fs_seek L file_p pos whence w = Some (res, w1)
               \<and> (res = LV_FS_RES_OK \<longleftrightarrow> rc = 0)))"
  by (simp add: fs_seek_def fs_seek_origin_def)

text \<open>The claim on the board: an offset that is negative as a \<open>long\<close> is refused by
  \<open>fseek\<close>, offset zero is accepted, both with a whence that is no enumerator.\<close>

theorem C7_witness:
  "(1 :: ptr) \<noteq> NULL
   \<and> fseek esp32 1 (sint (4294967295 :: uint32_t)) (fs_seek_origin (LV_FS_SEEK_other 7)) r_open
       = Some (- 1, r_open\<lparr>errno_val := 22\<rparr>)
   \<and> fs_seek esp32 1 4294967295 (LV_FS_SEEK_other 7) r_open
       = Some (LV_FS_RES_UNKNOWN, r_open\<lparr>errno_val := 22\<rparr>)
   \<and> fst (the (fs_seek esp32 1 0 (LV_FS_SEEK_other 7) r_open)) = LV_FS_RES_OK"
proof -
  have h1: "(1 :: ptr) \<noteq> NULL" by simp
  have h2: "fseek esp32 1 (sint (4294967295 :: uint32_t)) (fs_seek_origin (LV_FS_SEEK_other 7)) r_open
       = Some (- 1, r_open\<lparr>errno_val := 22\<rparr>)"
    by (simp add: started_def r_open_def open_defs fs_seek_def fs_seek_origin_def path_defs init_defs ref_defs)
  from C7_seek_whence_and_status [of 7 esp32 1 4294967295 r_open "LV_FS_SEEK_other 7" "- 1" "r_open\<lparr>errno_val := 22\<rparr>"] h1 h2
  obtain res where r: "fs_seek esp32 1 4294967295 (LV_FS_SEEK_other 7) r_open
       = Some (res, r_open\<lparr>errno_val := 22\<rparr>)"
    and i: "res = LV_FS_RES_OK \<longleftrightarrow> (- 1 :: int) = 0"
    by blast
  from i have "res = LV_FS_RES_UNKNOWN" by (cases res) simp_all
  with r have a: "fs_seek esp32 1 4294967295 (LV_FS_SEEK_other 7) r_open
       = Some (LV_FS_RES_UNKNOWN, r_open\<lparr>errno_val := 22\<rparr>)"
    by simp
  have b: "fst (the (fs_seek esp32 1 0 (LV_FS_SEEK_other 7) r_open)) = LV_FS_RES_OK"
    by (simp add: started_def r_open_def open_defs fs_seek_def fs_seek_origin_def path_defs init_defs ref_defs)
  from h1 h2 a b show ?thesis by simp
qed

section \<open>Directory reads\<close>

lemma c_str_no_NUL: "NUL \<notin> set (c_str buf)"
  unfolding c_str_def by (auto dest: set_takeWhileD)

lemma c_str_terminated: "NUL \<notin> set xs \<Longrightarrow> c_str (xs @ NUL # ys) = xs"
  unfolding c_str_def by (induction xs) auto

lemma c_str_length: "length (c_str buf) \<le> length buf"
  unfolding c_str_def by (rule length_takeWhile_le)

lemma c_str_store_first: "fn \<noteq> [] \<Longrightarrow> c_str (fn[0 := NUL]) = []"
  unfolding c_str_def by (cases fn) simp_all

lemma store_after_prefix:
  assumes "length head = n" and "n < length fn"
  shows "(head @ drop n fn)[n := NUL] = head @ NUL # drop (Suc n) fn"
proof -
  have "(head @ drop n fn)[n := NUL] = head @ (drop n fn)[0 := NUL]"
    using assms(1) by (simp add: list_update_append)
  moreover have "(drop n fn)[0 := NUL] = NUL # drop (Suc n) fn"
    using assms(2) by (simp add: Cons_nth_drop_Suc [symmetric])
  ultimately show ?thesis by simp
qed

lemma c_str_of_padded:
  assumes "NUL \<notin> set cs"
  shows "c_str (take n (cs @ replicate (n - length cs) NUL) @ NUL # rest) = take n cs"
proof (cases "n \<le> length cs")
  case True
  have "NUL \<notin> set (take n cs)"
    using assms by (auto dest: in_set_takeD)
  then have "c_str (take n cs @ NUL # rest) = take n cs"
    by (rule c_str_terminated)
  with True show ?thesis by simp
next
  case False
  then obtain k where k: "n - length cs = Suc k"
    by (cases "n - length cs") auto
  have "c_str (cs @ NUL # (replicate k NUL @ NUL # rest)) = cs"
    using assms by (rule c_str_terminated)
  with False k show ?thesis by simp
qed

text \<open>What \<open>strncpy\<close> followed by the store of the terminator leaves in the buffer.\<close>

lemma strncpy_then_terminate:
  assumes "n < length fn"
  shows "\<exists>fn1 fn2. strncpy fn src n = Some fn1 \<and> store_at fn1 n NUL = Some fn2
           \<and> length fn2 = length fn \<and> fn2 ! n = NUL \<and> c_str fn2 = take n (c_str src)"
proof -
  define head where "head = take n (c_str src @ replicate (n - length (c_str src)) NUL)"
  have len_head: "length head = n"
    by (simp add: head_def)
  have s1: "strncpy fn src n = Some (head @ drop n fn)"
    using assms by (simp add: strncpy_def head_def)
  have len1: "length (head @ drop n fn) = length fn"
    using assms len_head by simp
  have s2: "store_at (head @ drop n fn) n NUL = Some (head @ NUL # drop (Suc n) fn)"
    using assms len1 store_after_prefix [OF len_head assms] by (simp add: store_at_def)
  have len2: "length (head @ NUL # drop (Suc n) fn) = length fn"
    using assms len_head by simp
  have nth: "(head @ NUL # drop (Suc n) fn) ! n = NUL"
    using len_head by (simp add: nth_append)
  have str: "c_str (head @ NUL # drop (Suc n) fn) = take n (c_str src)"
    unfolding head_def by (rule c_str_of_padded) (rule c_str_no_NUL)
  from s1 s2 len2 nth str show ?thesis by blast
qed

lemma unat_pred: "(1 :: uint32_t) \<le> x \<Longrightarrow> unat (x - 1) = unat x - 1"
  by (simp add: unat_sub)

text \<open>
  Claim C8: a DirRead on a non-null handle whose cursor is exhausted returns Ok and leaves the
  empty string in the name buffer; on the reference platform the first DirRead of a directory
  without entries does so.
\<close>

theorem C8_dir_read_exhausted:
  "(rddir_p \<noteq> NULL \<and> readdir L rddir_p w = Some (None, w1) \<and> fn \<noteq> []
      \<longrightarrow> (\<exists>fn'. fs_dir_read L rddir_p fn fn_len w = Some (LV_FS_RES_OK, fn', w1)
             \<and> c_str fn' = []))
   \<and> (mounted w \<and> fs_dir_open_dirpath (ref_platform mp wr) path = Some dirpath
        \<and> folders w dirpath = Some [] \<and> fn \<noteq> []
      \<longrightarrow> (\<exists>d w2 fn'. fs_dir_open (ref_platform mp wr) path w = Some (d, w2) \<and> d \<noteq> NULL
             \<and> fs_dir_read (ref_platform mp wr) d fn fn_len w2 = Some (LV_FS_RES_OK, fn', w2)
             \<and> c_str fn' = []))"
proof (intro conjI impI)
  assume "rddir_p \<noteq> NULL \<and> readdir L rddir_p w = Some (None, w1) \<and> fn \<noteq> []"
  then show "\<exists>fn'. fs_dir_read L rddir_p fn fn_len w = Some (LV_FS_RES_OK, fn', w1) \<and> c_str fn' = []"
    by (simp add: fs_dir_read_def store_at_def c_str_store_first)
next
  assume a: "mounted w \<and> fs_dir_open_dirpath (ref_platform mp wr) path = Some dirpath
        \<and> folders w dirpath = Some [] \<and> fn \<noteq> []"
  let ?P = "ref_platform mp wr"
  let ?d = "Suc (last_ptr w)"
  let ?w2 = "w\<lparr>cursors := (cursors w)(?d \<mapsto> []), last_ptr := ?d\<rparr>"
  have o: "fs_dir_open ?P path w = Some (?d, ?w2)"
    using a by (simp add: fs_dir_open_def ref_platform_def ref_opendir_def)
  have r: "readdir ?P ?d ?w2 = Some (None, ?w2)"
    by (simp add: ref_platform_def ref_readdir_def)
  have "fs_dir_read ?P ?d fn fn_len ?w2 = Some (LV_FS_RES_OK, fn[0 := NUL], ?w2)"
    using a r by (simp add: fs_dir_read_def store_at_def)
  with o a show "\<exists>d w2 fn'. fs_dir_open ?P path w = Some (d, w2) \<and> d \<noteq> NULL
             \<and> fs_dir_read ?P d fn fn_len w2 = Some (LV_FS_RES_OK, fn', w2) \<and> c_str fn' = []"
    by (metis c_str_store_first nat.simps(3))
qed

text \<open>The claim on the board: the empty root directory, opened and read once.\<close>

theorem C8_witness:
  "(1 :: ptr) \<noteq> NULL
   \<and> readdir esp32 1 e_open = Some (None, e_open)
   \<and> ''xyz'' \<noteq> []
   \<and> mounted started
   \<and> fs_dir_open_dirpath esp32 ''/'' = Some ''/littlefs/''
   \<and> folders started ''/littlefs/'' = Some []
   \<and> fs_dir_open esp32 ''/'' started = Some (1, e_open)
   \<and> map_option fst (fs_dir_read esp32 1 ''xyz'' 3 e_open) = Some LV_FS_RES_OK
   \<and> map_option (c_str \<circ> fst \<circ> snd) (fs_dir_read esp32 1 ''xyz'' 3 e_open) = Some []"
proof -
  have h1: "(1 :: ptr) \<noteq> NULL" by simp
  have h2: "readdir esp32 1 e_open = Some (None, e_open)"
    by (simp add: started_def e_open_def fs_dir_open_def path_defs init_defs ref_defs)
  have h3: "''xyz'' \<noteq> []" by simp
  have h4: "mounted started" "fs_dir_open_dirpath esp32 ''/'' = Some ''/littlefs/''"
    "folders started ''/littlefs/'' = Some []"
    by (simp_all add: started_def path_defs init_defs ref_defs)
  note t = C8_dir_read_exhausted [where L = esp32 and rddir_p = 1 and w = e_open and ?w1.0 = e_open
      and fn = "''xyz''" and fn_len = 3 and mp = "''/littlefs''" and wr = 1 and path = "''/''"
      and dirpath = "''/littlefs/''"]
  have o: "fs_dir_open esp32 ''/'' started = Some (1, e_open)"
    by (simp add: started_def e_open_def fs_dir_open_def path_defs init_defs ref_defs)
  from C8_dir_read_exhausted [where w = started and fn = "''xyz''" and fn_len = 3
      and mp = "''/littlefs''" and wr = 1 and path = "''/''" and dirpath = "''/littlefs/''"
      and L = esp32 and rddir_p = 1 and ?w1.0 = e_open] h3 h4 o
  obtain fn' where "fs_dir_read esp32 1 ''xyz'' 3 e_open = Some (LV_FS_RES_OK, fn', e_open)"
    and "c_str fn' = []"
    by (auto simp: esp32_def)
  then have r: "map_option fst (fs_dir_read esp32 1 ''xyz'' 3 e_open) = Some LV_FS_RES_OK"
    "map_option (c_str \<circ> fst \<circ> snd) (fs_dir_read esp32 1 ''xyz'' 3 e_open) = Some []"
    by simp_all
  from t h1 h2 h3
  obtain fn'' where "fs_dir_read esp32 1 ''xyz'' 3 e_open = Some (LV_FS_RES_OK, fn'', e_open)"
    and "c_str fn'' = []"
    by blast
  with h1 h2 h3 h4 o r show ?thesis by simp
qed

text \<open>
  Claim C9: Read and Write on the null handle return UnknownError and leave the caller's count
  cell as it was; on a non-null handle, whatever the status, the cell receives the count that
  \<open>fread\<close> or \<open>fwrite\<close> returned.
\<close>

theorem C9_count_cell:
  "fs_read L NULL buf btr br w = Some (LV_FS_RES_UNKNOWN, buf, br, w)
   \<and> fs_write L NULL buf btw bw w = Some (LV_FS_RES_UNKNOWN, bw, w)
   \<and> (file_p \<noteq> NULL \<and> fread L buf 1 btr file_p w = Some ((n, buf1), w1)
        \<longrightarrow> (\<exists>res. fs_read L file_p buf btr (Some br0) w = Some (res, buf1, Some n, w1)))
   \<and> (file_p \<noteq> NULL \<and> fwrite L buf 1 btw file_p w = Some (m, w2)
        \<longrightarrow> (\<exists>res. fs_write L file_p buf btw (Some bw0) w = Some (res, Some m, w2)))"
  by (simp add: fs_read_def fs_write_def store_ptr_def)

text \<open>The claim on the board: the null handle, a failed write and a read at end-of-file.\<close>

theorem C9_witness:
  "fs_read esp32 NULL [0, 0] 2 (Some 5) r_open = Some (LV_FS_RES_UNKNOWN, [0, 0], Some 5, r_open)
   \<and> fs_write esp32 NULL [7] 1 (Some 9) r_open = Some (LV_FS_RES_UNKNOWN, Some 9, r_open)
   \<and> (1 :: ptr) \<noteq> NULL
   \<and> fwrite esp32 [7] 1 1 1 r_open = Some (0, r_err)
   \<and> map_option (fst \<circ> snd) (fs_write esp32 1 [7] 1 (Some 9) r_open) = Some (Some 0)
   \<and> fread esp32 [0, 0] 1 2 1 r_err = Some ((0, [0, 0]), r_end)
   \<and> map_option (fst \<circ> snd \<circ> snd) (fs_read esp32 1 [0, 0] 2 (Some 5) r_err) = Some (Some 0)"
proof -
  have h1: "(1 :: ptr) \<noteq> NULL" by simp
  have h2: "fwrite esp32 [7] 1 1 1 r_open = Some (0, r_err)"
    by (simp add: started_def r_open_def r_err_def r_end_def open_defs fs_read_def fs_write_def
      store_ptr_def path_defs init_defs ref_defs)
  have h3: "fread esp32 [0, 0] 1 2 1 r_err = Some ((0, [0, 0]), r_end)"
    by (simp add: started_def r_open_def r_err_def r_end_def open_defs fs_read_def fs_write_def
      store_ptr_def path_defs init_defs ref_defs)
  have a: "fs_read esp32 NULL [0, 0] 2 (Some 5) r_open = Some (LV_FS_RES_UNKNOWN, [0, 0], Some 5, r_open)"
    using C9_count_cell [where L = esp32 and buf = "[0, 0]" and btr = 2 and br = "Some 5" and w = r_open]
    by blast
  have b: "fs_write esp32 NULL [7] 1 (Some 9) r_open = Some (LV_FS_RES_UNKNOWN, Some 9, r_open)"
    using C9_count_cell [where L = esp32 and buf = "[7]" and btw = 1 and bw = "Some 9" and w = r_open]
    by blast
  have d: "map_option (fst \<circ> snd) (fs_write esp32 1 [7] 1 (Some 9) r_open) = Some (Some 0)"
    using C9_count_cell [where L = esp32 and buf = "[7]" and btw = 1 and w = r_open
        and file_p = 1 and m = 0 and ?w2.0 = r_err and ?bw0.0 = 9 and btr = 0 and br = None
        and bw = None and n = 0 and ?buf1.0 = "[]" and ?w1.0 = r_open and ?br0.0 = 0] h1 h2
    by auto
  have e: "map_option (fst \<circ> snd \<circ> snd) (fs_read esp32 1 [0, 0] 2 (Some 5) r_err) = Some (Some 0)"
    using C9_count_cell [where L = esp32 and buf = "[0, 0]" and btr = 2 and w = r_err
        and file_p = 1 and n = 0 and ?buf1.0 = "[0, 0]" and ?w1.0 = r_end and ?br0.0 = 5
        and br = None and btw = 0 and bw = None and m = 0 and ?w2.0 = r_err and ?bw0.0 = 0] h1 h3
    by auto
  from a b h1 h2 d h3 e show ?thesis by simp
qed

text \<open>
  Claim C10: a DirRead on a non-null handle with a buffer of \<open>fn_len \<ge> 1\<close> characters
  returns Ok, leaves a NUL within the first \<open>fn_len\<close> characters of the buffer, and the name
  in the buffer is the entry's name cut to \<open>fn_len - 1\<close> characters (the empty name when the
  directory is exhausted).
\<close>

theorem C10_dir_read_name_terminated:
  assumes "rddir_p \<noteq> NULL"
    and "1 \<le> fn_len"
    and "unat fn_len \<le> length fn"
    and "readdir L rddir_p w = Some (entry, w1)"
  shows "\<exists>fn'. fs_dir_read L rddir_p fn fn_len w = Some (LV_FS_RES_OK, fn', w1)
           \<and> length fn' = length fn
           \<and> (\<exists>i. i < unat fn_len \<and> fn' ! i = NUL)
           \<and> length (c_str fn') \<le> unat fn_len - 1
           \<and> c_str fn' = (case entry of None \<Rightarrow> []
                          | Some e \<Rightarrow> take (unat fn_len - 1) (c_str (d_name e)))"
proof -
  from assms(2) have pos: "0 < unat fn_len"
    by (simp add: word_le_nat_alt)
  with assms(3) have ne: "fn \<noteq> []" by auto
  show ?thesis
  proof (cases entry)
    case None
    have "fs_dir_read L rddir_p fn fn_len w = Some (LV_FS_RES_OK, fn[0 := NUL], w1)"
      using assms(1,4) ne None by (simp add: fs_dir_read_def store_at_def)
    moreover have "fn[0 := NUL] ! 0 = NUL" using ne by simp
    moreover have "c_str (fn[0 := NUL]) = []" using ne by (rule c_str_store_first)
    ultimately show ?thesis using None pos by auto
  next
    case (Some e)
    let ?n = "unat fn_len - 1"
    have n: "unat (fn_len - 1) = ?n" using assms(2) by (rule unat_pred)
    have lt: "?n < length fn" using pos assms(3) by simp
    from strncpy_then_terminate [OF lt, of "d_name e"]
    obtain fn1 fn2 where s: "strncpy fn (d_name e) ?n = Some fn1" "store_at fn1 ?n NUL = Some fn2"
      and p: "length fn2 = length fn" "fn2 ! ?n = NUL" "c_str fn2 = take ?n (c_str (d_name e))"
      by blast
    have "fs_dir_read L rddir_p fn fn_len w = Some (LV_FS_RES_OK, fn2, w1)"
      using assms(1,4) Some s n by (simp add: fs_dir_read_def)
    moreover have "?n < unat fn_len" using pos by simp
    moreover have "length (c_str fn2) \<le> ?n" using p(3) by simp
    ultimately show ?thesis using Some p by auto
  qed
qed

text \<open>The claim on the board: a name of eight characters read into a buffer of eight.\<close>

theorem C10_witness:
  "(1 :: ptr) \<noteq> NULL
   \<and> (1 :: uint32_t) \<le> 8
   \<and> unat (8 :: uint32_t) \<le> length ''????????''
   \<and> readdir esp32 1 d_open
       = Some (Some \<lparr>d_name = ''logo.bin'' @ [NUL]\<rparr>, snd (the (readdir esp32 1 d_open)))
   \<and> map_option fst (fs_dir_read esp32 1 ''????????'' 8 d_open) = Some LV_FS_RES_OK
   \<and> map_option (c_str \<circ> fst \<circ> snd) (fs_dir_read esp32 1 ''????????'' 8 d_open) = Some ''logo.bi''"
proof -
  have h1: "(1 :: ptr) \<noteq> NULL" by simp
  have h2: "(1 :: uint32_t) \<le> 8" by simp
  have h3: "unat (8 :: uint32_t) \<le> length ''????????''" by simp
  have h4: "readdir esp32 1 d_open
       = Some (Some \<lparr>d_name = ''logo.bin'' @ [NUL]\<rparr>, snd (the (readdir esp32 1 d_open)))"
    by (simp add: started_def d_open_def fs_dir_open_def path_defs init_defs ref_defs)
  from C10_dir_read_name_terminated [OF h1 h2 h3 h4]
  obtain fn' where r: "fs_dir_read esp32 1 ''????????'' 8 d_open
        = Some (LV_FS_RES_OK, fn', snd (the (readdir esp32 1 d_open)))"
    and c: "c_str fn' = (case Some \<lparr>d_name = ''logo.bin'' @ [NUL]\<rparr> of None \<Rightarrow> []
                          | Some e \<Rightarrow> take (unat (8 :: uint32_t) - 1) (c_str (d_name e)))"
    by blast
  from c have "c_str fn' = ''logo.bi''"
    by (simp add: c_str_def)
  with r have "map_option fst (fs_dir_read esp32 1 ''????????'' 8 d_open) = Some LV_FS_RES_OK"
    and "map_option (c_str \<circ> fst \<circ> snd) (fs_dir_read esp32 1 ''????????'' 8 d_open) = Some ''logo.bi''"
    by simp_all
  with h1 h2 h3 h4 show ?thesis by simp
qed

end
